theory Spec2Isabelle
  imports Main
begin

section \<open>Values, exceptions and observable events\<close>

text \<open>
  The program is one Python class, \<open>DecodeSecretMessage\<close>, and a driver \<open>Main\<close>.
  Python text is modelled as \<open>string\<close>, over the code points 0 to 255. An argument
  of the constructor can be any Python object; the ones that are not text are
  represented by two constructors. Exceptions are values: a function that can raise
  returns \<open>exn + 'a\<close>. What the program does to the outside world is a list of events,
  in the order they happen: an HTTP GET that is issued, or a line written by \<open>print\<close>.
\<close>

datatype py_value = PyStr string | PyInt int | PyNone

datatype exn = TypeError string | ValueError string | IndexError string

datatype event = HttpGet string | Print string

fun exn_str :: "exn \<Rightarrow> string" where
  "exn_str (TypeError m) = m"
| "exn_str (ValueError m) = m"
| "exn_str (IndexError m) = m"

section \<open>Text primitives of the language\<close>

text \<open>
  \<open>str.isspace\<close>, \<open>str.strip\<close> and \<open>int\<close> as the interpreter defines them on the
  code points below 256. Whitespace is tab to carriage return, the four separators
  28 to 31, space, NEL (133) and the no-break space (160).
\<close>

definition is_whitespace :: "char \<Rightarrow> bool" where
  "is_whitespace c =
     (let n = (of_char c :: nat)
      in (9 \<le> n \<and> n \<le> 13) \<or> (28 \<le> n \<and> n \<le> 32) \<or> n = 133 \<or> n = 160)"

definition isspace :: "string \<Rightarrow> bool" where
  "isspace s = (s \<noteq> [] \<and> list_all is_whitespace s)"

definition strip :: "string \<Rightarrow> string" where
  "strip s = rev (dropWhile is_whitespace (rev (dropWhile is_whitespace s)))"

definition is_digit :: "char \<Rightarrow> bool" where
  "is_digit c = (let n = (of_char c :: nat) in 48 \<le> n \<and> n \<le> 57)"

definition digit_val :: "char \<Rightarrow> int" where
  "digit_val c = of_char c - 48"

text \<open>
  \<open>int(s)\<close> in base 10, for text that \<open>strip\<close> has already trimmed (the only way
  the program calls it): an optional sign, then decimal digits, where single
  underscores may separate digits. \<open>None\<close> stands for the \<open>ValueError\<close> that \<open>int\<close>
  raises. Integers are unbounded, as in Python; the interpreter's configurable cap
  on the number of digits it converts, the fixed-width storage of the data frame
  and the limits of memory are outside the model.
\<close>

fun py_digits :: "int \<Rightarrow> string \<Rightarrow> int option" where
  "py_digits acc [] = Some acc"
| "py_digits acc (c # cs) =
     (if is_digit c then py_digits (10 * acc + digit_val c) cs
      else if c = CHR ''_'' then
        (case cs of
           [] \<Rightarrow> None
         | d # ds \<Rightarrow> if is_digit d then py_digits (10 * acc + digit_val d) ds else None)
      else None)"

definition py_unsigned :: "string \<Rightarrow> int option" where
  "py_unsigned s =
     (case s of
        [] \<Rightarrow> None
      | c # cs \<Rightarrow> if is_digit c then py_digits (digit_val c) cs else None)"

definition py_int :: "string \<Rightarrow> int option" where
  "py_int s =
     (case s of
        [] \<Rightarrow> None
      | c # cs \<Rightarrow>
          if c = CHR ''-'' then map_option uminus (py_unsigned cs)
          else if c = CHR ''+'' then py_unsigned cs
          else py_unsigned s)"

section \<open>The URL validator\<close>

text \<open>
  \<open>urlparse\<close> is the standard library's; the setter reads two fields of its result.
  The model computes them as the library does: leading code points up to 32 are
  dropped, tab, carriage return and line feed are removed everywhere, the scheme is
  the text before the first colon when that text starts with an ASCII letter and
  consists of letters, digits, plus, minus and dot (it is lower-cased), and the
  network location is what follows a leading double slash up to the next slash,
  question mark or hash. On some malformed hosts (unbalanced brackets, for one)
  the library raises a \<open>ValueError\<close> of its own; such a host is never
  \<open>docs.google.com\<close>, so the input is refused with a \<open>ValueError\<close> either way, and
  the model lets the setter's own comparison refuse it.
\<close>

record parse_result =
  scheme :: string
  netloc :: string

definition is_ascii_alpha :: "char \<Rightarrow> bool" where
  "is_ascii_alpha c =
     (let n = (of_char c :: nat) in (65 \<le> n \<and> n \<le> 90) \<or> (97 \<le> n \<and> n \<le> 122))"

definition is_scheme_char :: "char \<Rightarrow> bool" where
  "is_scheme_char c = (is_ascii_alpha c \<or> is_digit c \<or> c \<in> set ''+-.'')"

definition lower_char :: "char \<Rightarrow> char" where
  "lower_char c =
     (let n = (of_char c :: nat) in if 65 \<le> n \<and> n \<le> 90 then char_of (n + 32) else c)"

definition urlparse :: "string \<Rightarrow> parse_result" where
  "urlparse u =
     (let u1 = dropWhile (\<lambda>c. (of_char c :: nat) \<le> 32) u;
          u2 = filter (\<lambda>c. (of_char c :: nat) \<noteq> 9 \<and> (of_char c :: nat) \<noteq> 10
                           \<and> (of_char c :: nat) \<noteq> 13) u1;
          pre = takeWhile (\<lambda>c. c \<noteq> CHR '':'') u2;
          has_scheme = (length pre < length u2 \<and> pre \<noteq> [] \<and> is_ascii_alpha (hd pre)
                          \<and> list_all is_scheme_char pre);
          sch = (if has_scheme then map lower_char pre else []);
          rest = (if has_scheme then drop (length pre + 1) u2 else u2);
          loc = (if take 2 rest = ''//''
                 then takeWhile (\<lambda>c. c \<notin> set ''/?#'') (drop 2 rest) else [])
      in \<lparr>scheme = sch, netloc = loc\<rparr>)"

text \<open>
  The property setter of \<open>url\<close>: it returns the text it stores in \<open>_url\<close>, or the
  exception it raises.
\<close>

definition url_setter :: "py_value \<Rightarrow> exn + string" where
  "url_setter v =
     (case v of
        PyStr u \<Rightarrow>
          if isspace u then Inl (ValueError ''URL cannot be empty'')
          else
            (let parsed_url = urlparse u
             in if scheme parsed_url \<noteq> ''https'' \<or> netloc parsed_url \<noteq> ''docs.google.com''
                then Inl (ValueError ''Invalid URL. Please provide a valid Google Doc URL.'')
                else Inr u)
      | _ \<Rightarrow> Inl (TypeError ''URL must be a string''))"

section \<open>The decoder object and the document fetcher\<close>

text \<open>
  A response of the HTTP client: the status line, the final URL and the body. The
  client itself is a parameter \<open>get\<close> of the model: given the URL it either raises
  a \<open>RequestException\<close> (\<open>Inl\<close> of its text) or returns a response. The client's
  \<open>raise_for_status\<close> raises for the statuses 400 to 599 and for no other, and the
  truth value of a response is that it would not raise.
\<close>

record http_response =
  status_code :: int
  reason :: string
  resp_url :: string
  resp_text :: string

type_synonym html_row = "string list"
type_synonym html_table = "html_row list"
type_synonym triple = "int \<times> int \<times> string"

record decoder =
  url :: string
  response :: "http_response option"
  grid :: "triple list option"

definition init :: "py_value \<Rightarrow> exn + decoder" where
  "init v =
     (case url_setter v of
        Inl e \<Rightarrow> Inl e
      | Inr u \<Rightarrow> Inr \<lparr>url = u, response = None, grid = None\<rparr>)"

fun show_nat :: "nat \<Rightarrow> string" where
  "show_nat n =
     (if n < 10 then [char_of (48 + n)]
      else show_nat (n div 10) @ [char_of (48 + n mod 10)])"

definition raise_for_status :: "http_response \<Rightarrow> string option" where
  "raise_for_status r =
     (if 400 \<le> status_code r \<and> status_code r < 500 then
        Some (show_nat (nat (status_code r)) @ '' Client Error: '' @ reason r
              @ '' for url: '' @ resp_url r)
      else if 500 \<le> status_code r \<and> status_code r < 600 then
        Some (show_nat (nat (status_code r)) @ '' Server Error: '' @ reason r
              @ '' for url: '' @ resp_url r)
      else None)"

definition response_ok :: "http_response \<Rightarrow> bool" where
  "response_ok r = (raise_for_status r = None)"

definition verify_public_url ::
  "(string \<Rightarrow> string + http_response) \<Rightarrow> decoder \<Rightarrow> (decoder \<times> bool) \<times> event list" where
  "verify_public_url get self =
     (case get (url self) of
        Inl e \<Rightarrow>
          ((self, False), [HttpGet (url self), Print (''Error accessing the URL: '' @ e)])
      | Inr r \<Rightarrow>
          (case raise_for_status r of
             Some e \<Rightarrow>
               ((self\<lparr>response := Some r\<rparr>, False),
                [HttpGet (url self), Print (''Error accessing the URL: '' @ e)])
           | None \<Rightarrow> ((self\<lparr>response := Some r\<rparr>, True), [HttpGet (url self)])))"

section \<open>The table parser\<close>

text \<open>
  The HTML library is a parameter \<open>soup\<close>: for a markup text it gives the table
  elements in document order, a table being the list of its \<open>tr\<close> elements and a
  row the list of the texts of its \<open>td\<close> elements. \<open>find_table\<close> is the library's
  \<open>find\<close>: the first one, if any.
\<close>

definition find_table :: "html_table list \<Rightarrow> html_table option" where
  "find_table ts = (case ts of [] \<Rightarrow> None | t # _ \<Rightarrow> Some t)"

definition parse_error_msg :: string where
  "parse_error_msg = ''Error in parsing coordinates or character data.''"

text \<open>The body of the loop over the rows: the triple it appends, and what it prints.\<close>

definition parse_row :: "html_row \<Rightarrow> triple option \<times> event list" where
  "parse_row cells =
     (if length cells \<ge> 3 then
        (case py_int (strip (cells ! 0)) of
           None \<Rightarrow> (None, [Print parse_error_msg])
         | Some x \<Rightarrow>
             (case py_int (strip (cells ! 2)) of
                None \<Rightarrow> (None, [Print parse_error_msg])
              | Some y \<Rightarrow> (Some (x, y, strip (cells ! 1)), [])))
      else (None, []))"

fun parse_rows :: "triple list \<Rightarrow> html_row list \<Rightarrow> triple list \<times> event list" where
  "parse_rows grid_data [] = (grid_data, [])"
| "parse_rows grid_data (cells # rows) =
     (case parse_row cells of
        (None, evs) \<Rightarrow>
          (case parse_rows grid_data rows of (g, evs') \<Rightarrow> (g, evs @ evs'))
      | (Some t, evs) \<Rightarrow>
          (case parse_rows (grid_data @ [t]) rows of (g, evs') \<Rightarrow> (g, evs @ evs')))"

definition get_data ::
  "(string \<Rightarrow> html_table list) \<Rightarrow> decoder \<Rightarrow> decoder \<times> event list" where
  "get_data soup self =
     (case response self of
        None \<Rightarrow> (self, [Print ''No response found.''])
      | Some r \<Rightarrow>
          if \<not> response_ok r then (self, [Print ''No response found.''])
          else
            (case find_table (soup (resp_text r)) of
               None \<Rightarrow> (self, [Print ''No table found in the document.''])
             | Some table \<Rightarrow>
                 (case parse_rows [] (drop 1 table) of
                    (grid_data, evs) \<Rightarrow> (self\<lparr>grid := Some grid_data\<rparr>, evs))))"

section \<open>The grid renderer\<close>

text \<open>
  The data frame's column maximum: of an empty column it is not a number, written
  \<open>None\<close>, and \<open>range\<close> then raises a \<open>TypeError\<close>. \<open>py_index\<close> is Python's list
  indexing: a negative index counts from the end, and an index outside the list
  raises an \<open>IndexError\<close> (\<open>None\<close> here). Every row of the grid is a list of its
  own, so an assignment changes one cell.
\<close>

definition series_max :: "int list \<Rightarrow> int option" where
  "series_max xs = (case xs of [] \<Rightarrow> None | x # xs' \<Rightarrow> Some (foldl max x xs'))"

definition py_index :: "nat \<Rightarrow> int \<Rightarrow> nat option" where
  "py_index n i =
     (if 0 \<le> i \<and> i < int n then Some (nat i)
      else if i < 0 \<and> - int n \<le> i then Some (nat (int n + i))
      else None)"

definition empty_grid :: "int \<Rightarrow> int \<Rightarrow> string list list" where
  "empty_grid max_x max_y = replicate (nat (max_y + 1)) (replicate (nat (max_x + 1)) '' '')"

definition set_cell :: "string list list \<Rightarrow> int \<Rightarrow> int \<Rightarrow> string \<Rightarrow> exn + string list list" where
  "set_cell g y x c =
     (case py_index (length g) y of
        None \<Rightarrow> Inl (IndexError ''list index out of range'')
      | Some j \<Rightarrow>
          (case py_index (length (g ! j)) x of
             None \<Rightarrow> Inl (IndexError ''list assignment index out of range'')
           | Some i \<Rightarrow> Inr (g[j := (g ! j)[i := c]])))"

fun fill_grid :: "string list list \<Rightarrow> triple list \<Rightarrow> exn + string list list" where
  "fill_grid g [] = Inr g"
| "fill_grid g ((x, y, c) # ts) =
     (case set_cell g y x c of Inl e \<Rightarrow> Inl e | Inr g' \<Rightarrow> fill_grid g' ts)"

definition float_range_msg :: string where
  "float_range_msg =
     [CHR 0x27] @ ''float'' @ [CHR 0x27] @ '' object cannot be interpreted as an integer''"

text \<open>The grid as it is when the printing loop starts, or the exception raised before.\<close>

definition build_grid :: "triple list \<Rightarrow> exn + string list list" where
  "build_grid ts =
     (case series_max (map fst ts) of
        None \<Rightarrow> Inl (TypeError float_range_msg)
      | Some max_x \<Rightarrow>
          (case series_max (map (\<lambda>t. fst (snd t)) ts) of
             None \<Rightarrow> Inl (TypeError float_range_msg)
           | Some max_y \<Rightarrow> fill_grid (empty_grid max_x max_y) ts))"

definition print_rows :: "string list list \<Rightarrow> event list" where
  "print_rows g = map (\<lambda>y. Print (concat (g ! y))) (rev [0..<length g])"

definition display_grid ::
  "(string \<Rightarrow> html_table list) \<Rightarrow> decoder \<Rightarrow> (exn + decoder) \<times> event list" where
  "display_grid soup self =
     (case (if grid self = None then get_data soup self else (self, [])) of
        (self', evs) \<Rightarrow>
          (case grid self' of
             None \<Rightarrow> (Inr self', evs @ [Print ''No data to display.''])
           | Some ts \<Rightarrow>
               (case build_grid ts of
                  Inl e \<Rightarrow> (Inl e, evs)
                | Inr g \<Rightarrow> (Inr self', evs @ print_rows g))))"

section \<open>The driver\<close>

text \<open>
  \<open>Main\<close> with the URL as its argument (the source binds it to a literal). The
  constructor runs outside the \<open>try\<close>: what it raises leaves \<open>Main\<close>, which is the
  first component of the result. \<open>try_block\<close> is the body of the \<open>try\<close>.
\<close>

definition access_failed_msg :: string where
  "access_failed_msg =
     ''Failed to access the URL. Please check the URL and make sure it is public.''"

definition private_url_hint :: string where
  "private_url_hint =
     ''This might be due to a private or incorrect URL. ''
     @ ''Ensure the document is publicly accessible.''"

definition try_block ::
  "(string \<Rightarrow> string + http_response) \<Rightarrow> (string \<Rightarrow> html_table list) \<Rightarrow> decoder
     \<Rightarrow> exn option \<times> event list" where
  "try_block get soup decode_message =
     (case verify_public_url get decode_message of
        ((d1, ok), evs1) \<Rightarrow>
          if \<not> ok then
            (Some (ValueError access_failed_msg), evs1)
          else
            (case get_data soup d1 of
               (d2, evs2) \<Rightarrow>
                 (case display_grid soup d2 of
                    (Inl e, evs3) \<Rightarrow> (Some e, evs1 @ evs2 @ evs3)
                  | (Inr _, evs3) \<Rightarrow> (None, evs1 @ evs2 @ evs3))))"

definition Main ::
  "(string \<Rightarrow> string + http_response) \<Rightarrow> (string \<Rightarrow> html_table list) \<Rightarrow> py_value
     \<Rightarrow> exn option \<times> event list" where
  "Main get soup url_arg =
     (case init url_arg of
        Inl e \<Rightarrow> (Some e, [])
      | Inr decode_message \<Rightarrow>
          (case try_block get soup decode_message of
             (None, evs) \<Rightarrow> (None, evs)
           | (Some (ValueError m), evs) \<Rightarrow>
               (None, evs @
                 [Print (''Error: '' @ m), Print private_url_hint])
           | (Some e, evs) \<Rightarrow>
               (None, evs @
                 [Print ''An unexpected error occurred while processing the document.'',
                  Print (''Details: '' @ exn_str e)])))"

section \<open>Notions of the specification\<close>

text \<open>
  The specification's words for a data row, written down next to the code they are
  compared with. A row is accepted when it has at least three cells and the trimmed
  first and third cells read as integers; it is malformed when it has the cells and
  one of the two does not read as an integer; the triple of an accepted row is
  (x from cell 1, y from cell 3, character from cell 2).
\<close>

definition row_accepted :: "html_row \<Rightarrow> bool" where
  "row_accepted cells =
     (length cells \<ge> 3 \<and> py_int (strip (cells ! 0)) \<noteq> None \<and> py_int (strip (cells ! 2)) \<noteq> None)"

definition row_malformed :: "html_row \<Rightarrow> bool" where
  "row_malformed cells =
     (length cells \<ge> 3 \<and> (py_int (strip (cells ! 0)) = None \<or> py_int (strip (cells ! 2)) = None))"

definition row_triple :: "html_row \<Rightarrow> triple" where
  "row_triple cells =
     (the (py_int (strip (cells ! 0))), the (py_int (strip (cells ! 2))), strip (cells ! 1))"

text \<open>
  The data model's triple list: coordinates are not negative. \<open>last_at ts x y\<close> is
  the character of the last triple of \<open>ts\<close> at the coordinate (x, y), if there is
  one.
\<close>

definition nonneg_coords :: "triple list \<Rightarrow> bool" where
  "nonneg_coords ts = list_all (\<lambda>t. 0 \<le> fst t \<and> 0 \<le> fst (snd t)) ts"

fun last_at :: "triple list \<Rightarrow> int \<Rightarrow> int \<Rightarrow> string option" where
  "last_at [] i j = None"
| "last_at ((x, y, c) # ts) i j =
     (case last_at ts i j of
        Some c' \<Rightarrow> Some c'
      | None \<Rightarrow> if x = i \<and> y = j then Some c else None)"

section \<open>The validator refuses what is not a document URL\<close>

lemma urlparse_empty: "urlparse [] = \<lparr>scheme = [], netloc = []\<rparr>"
  by (simp add: urlparse_def)

lemma urlparse_example_com:
  "urlparse ''https://example.com/doc'' = \<lparr>scheme = ''https'', netloc = ''example.com''\<rparr>"
  by code_simp

lemma urlparse_http:
  "urlparse ''http://docs.google.com/document''
     = \<lparr>scheme = ''http'', netloc = ''docs.google.com''\<rparr>"
  by code_simp

lemma isspace_blanks: "isspace ''   ''"
  by code_simp

lemma url_setter_not_str:
  "(\<forall>u. v \<noteq> PyStr u) \<Longrightarrow> url_setter v = Inl (TypeError ''URL must be a string'')"
  by (cases v) (simp_all add: url_setter_def)

lemma url_setter_str_cases:
  "u = [] \<or> isspace u \<or> scheme (urlparse u) \<noteq> ''https''
     \<or> netloc (urlparse u) \<noteq> ''docs.google.com''
   \<Longrightarrow> \<exists>m. url_setter (PyStr u) = Inl (ValueError m)"
  by (auto simp: url_setter_def urlparse_empty Let_def)

lemma Main_init_error: "init v = Inl e \<Longrightarrow> Main get soup v = (Some e, [])"
  by (simp add: Main_def)

text \<open>
  C10. The empty text is not all-whitespace for \<open>isspace\<close>, so the check with the
  message "URL cannot be empty" does not fire; the empty text is refused all the
  same, by the comparison of scheme and host, with the invalid-URL message.
\<close>

theorem url_setter_empty_string:
  "\<not> isspace '''' \<and>
   url_setter (PyStr '''')
     = Inl (ValueError ''Invalid URL. Please provide a valid Google Doc URL.'') \<and>
   url_setter (PyStr '''') \<noteq> Inl (ValueError ''URL cannot be empty'')"
  by (simp add: url_setter_def isspace_def urlparse_empty)

theorem url_setter_empty_string_witness:
  "\<exists>m. url_setter (PyStr []) = Inl (ValueError m) \<and> m \<noteq> ''URL cannot be empty''"
  using url_setter_empty_string by auto

text \<open>
  C7. A value that is not text, a text that is empty or all whitespace, a URL
  whose scheme is not https, and a URL whose host is not docs.google.com: for each
  the setter raises (a \<open>TypeError\<close> or a \<open>ValueError\<close>), so does the constructor, and
  \<open>Main\<close> ends with that exception having issued no HTTP request and printed nothing,
  whatever the network and the HTML library would have answered.
\<close>

theorem url_setter_rejects_invalid:
  assumes "(\<forall>u. v \<noteq> PyStr u) \<or>
           (\<exists>u. v = PyStr u \<and> (u = [] \<or> isspace u \<or> scheme (urlparse u) \<noteq> ''https''
                                 \<or> netloc (urlparse u) \<noteq> ''docs.google.com''))"
  shows "\<exists>e. url_setter v = Inl e \<and> (\<exists>m. e = TypeError m \<or> e = ValueError m) \<and>
             init v = Inl e \<and> (\<forall>get soup. Main get soup v = (Some e, []))"
proof -
  from assms obtain e where e: "url_setter v = Inl e" "\<exists>m. e = TypeError m \<or> e = ValueError m"
    using url_setter_not_str url_setter_str_cases by blast
  then have "init v = Inl e" by (simp add: init_def)
  with e Main_init_error show ?thesis by blast
qed

theorem url_setter_rejects_invalid_witness:
  "Main (\<lambda>u. Inl []) (\<lambda>t. []) PyNone = (Some (TypeError ''URL must be a string''), []) \<and>
   Main (\<lambda>u. Inl []) (\<lambda>t. []) (PyStr '''')
     = (Some (ValueError ''Invalid URL. Please provide a valid Google Doc URL.''), []) \<and>
   Main (\<lambda>u. Inl []) (\<lambda>t. []) (PyStr ''   '') = (Some (ValueError ''URL cannot be empty''), []) \<and>
   Main (\<lambda>u. Inl []) (\<lambda>t. []) (PyStr ''http://docs.google.com/document'')
     = (Some (ValueError ''Invalid URL. Please provide a valid Google Doc URL.''), []) \<and>
   Main (\<lambda>u. Inl []) (\<lambda>t. []) (PyStr ''https://example.com/doc'')
     = (Some (ValueError ''Invalid URL. Please provide a valid Google Doc URL.''), [])"
proof -
  have a: "url_setter PyNone = Inl (TypeError ''URL must be a string'')"
    by (simp add: url_setter_def)
  have b: "url_setter (PyStr '''')
             = Inl (ValueError ''Invalid URL. Please provide a valid Google Doc URL.'')"
    by (simp add: url_setter_def isspace_def urlparse_empty)
  have c: "url_setter (PyStr ''   '') = Inl (ValueError ''URL cannot be empty'')"
    by (simp add: url_setter_def isspace_blanks)
  have nb: "\<not> isspace ''http://docs.google.com/document''" "\<not> isspace ''https://example.com/doc''"
    by (simp_all add: isspace_def is_whitespace_def)
  have d: "url_setter (PyStr ''http://docs.google.com/document'')
             = Inl (ValueError ''Invalid URL. Please provide a valid Google Doc URL.'')"
    by (simp add: url_setter_def nb urlparse_http)
  have e: "url_setter (PyStr ''https://example.com/doc'')
             = Inl (ValueError ''Invalid URL. Please provide a valid Google Doc URL.'')"
    by (simp add: url_setter_def nb urlparse_example_com)
  show ?thesis
    using url_setter_rejects_invalid [of PyNone]
      url_setter_rejects_invalid [of "PyStr ''''"]
      url_setter_rejects_invalid [of "PyStr ''   ''"]
      url_setter_rejects_invalid [of "PyStr ''http://docs.google.com/document''"]
      url_setter_rejects_invalid [of "PyStr ''https://example.com/doc''"]
    by (simp add: a b c d e isspace_blanks urlparse_http urlparse_example_com)
qed

section \<open>The parser reads the rows of the first table\<close>

lemma parse_row_cases:
  "parse_row cells =
     (if row_accepted cells then (Some (row_triple cells), [])
      else if row_malformed cells then (None, [Print parse_error_msg])
      else (None, []))"
  by (auto simp: parse_row_def row_accepted_def row_malformed_def row_triple_def
           split: option.splits)

lemma parse_rows_spec:
  "parse_rows acc rows =
     (acc @ map row_triple (filter row_accepted rows),
      map (\<lambda>cells. Print parse_error_msg) (filter row_malformed rows))"
proof (induction rows arbitrary: acc)
  case Nil
  show ?case by simp
next
  case (Cons cells rows)
  have excl: "row_accepted cells \<Longrightarrow> \<not> row_malformed cells"
    by (auto simp: row_accepted_def row_malformed_def)
  show ?case
    by (simp add: parse_row_cases Cons.IH excl)
qed

lemma get_data_parses:
  assumes "response self = Some r" and "response_ok r"
    and "soup (resp_text r) = table # others"
  shows "get_data soup self =
           (self\<lparr>grid := Some (map row_triple (filter row_accepted (drop 1 table)))\<rparr>,
            map (\<lambda>cells. Print parse_error_msg) (filter row_malformed (drop 1 table)))"
  using assms by (simp add: get_data_def find_table_def parse_rows_spec)

lemma response_ok_200:
  "response_ok \<lparr>status_code = 200, reason = ''OK'',
                resp_url = ''https://docs.google.com/d'', resp_text = ''<table>''\<rparr>"
  by (simp add: response_ok_def raise_for_status_def)

lemma url_setter_docs: "url_setter (PyStr ''https://docs.google.com/d'') = Inr ''https://docs.google.com/d''"
  by code_simp

text \<open>
  C2. When the response is usable and the markup has a table, \<open>get_data\<close> reads the
  first table: it leaves out the first row, and of the rows after it, in their
  order, it keeps those with at least three cells whose trimmed first and third
  cells read as integers, as the triple (x from cell 1, y from cell 3, trimmed text
  of cell 2). For each row with three cells where one of the two does not read as
  an integer it prints one diagnostic line and goes on with the next row; shorter
  rows are passed over silently.
\<close>

theorem get_data_table_rows:
  assumes "response self = Some r" and "response_ok r"
    and "soup (resp_text r) = table # others"
  shows "get_data soup self =
           (self\<lparr>grid := Some (map row_triple (filter row_accepted (drop 1 table)))\<rparr>,
            map (\<lambda>cells. Print parse_error_msg) (filter row_malformed (drop 1 table)))
         \<and> (\<forall>cells. row_accepted cells \<longleftrightarrow>
               length cells \<ge> 3 \<and> (\<exists>x y. py_int (strip (cells ! 0)) = Some x
                                        \<and> py_int (strip (cells ! 2)) = Some y
                                        \<and> row_triple cells = (x, y, strip (cells ! 1))))
         \<and> (\<forall>cells. row_malformed cells \<longleftrightarrow> length cells \<ge> 3 \<and> \<not> row_accepted cells)"
proof -
  have "get_data soup self =
           (self\<lparr>grid := Some (map row_triple (filter row_accepted (drop 1 table)))\<rparr>,
            map (\<lambda>cells. Print parse_error_msg) (filter row_malformed (drop 1 table)))"
    using assms by (rule get_data_parses)
  then show ?thesis
    by (auto simp: row_accepted_def row_malformed_def row_triple_def)
qed

theorem get_data_table_rows_witness:
  "get_data
     (\<lambda>text. [[[''x-coordinate'', ''Character'', ''y-coordinate''],
               [''0'', ''A'', ''0''], [''one'', ''B'', ''0''], [''7''], ['' 1 '', '' C '', '' 2 '']]])
     \<lparr>url = ''https://docs.google.com/d'',
      response = Some \<lparr>status_code = 200, reason = ''OK'',
                        resp_url = ''https://docs.google.com/d'', resp_text = ''<table>''\<rparr>,
      grid = None\<rparr>
   = (\<lparr>url = ''https://docs.google.com/d'',
       response = Some \<lparr>status_code = 200, reason = ''OK'',
                         resp_url = ''https://docs.google.com/d'', resp_text = ''<table>''\<rparr>,
       grid = Some [(0, 0, ''A''), (1, 2, ''C'')]\<rparr>,
      [Print parse_error_msg])"
proof -
  let ?tab = "[[''x-coordinate'', ''Character'', ''y-coordinate''],
               [''0'', ''A'', ''0''], [''one'', ''B'', ''0''], [''7''], ['' 1 '', '' C '', '' 2 '']]"
  let ?r = "\<lparr>status_code = 200, reason = ''OK'',
             resp_url = ''https://docs.google.com/d'', resp_text = ''<table>''\<rparr>"
  let ?self = "\<lparr>url = ''https://docs.google.com/d'', response = Some ?r, grid = None\<rparr>"
  have rows: "map row_triple (filter row_accepted (drop 1 ?tab)) = [(0, 0, ''A''), (1, 2, ''C'')]"
    by code_simp
  have mal: "filter row_malformed (drop 1 ?tab) = [[''one'', ''B'', ''0'']]"
    by code_simp
  have "get_data (\<lambda>text. [?tab]) ?self =
          (?self\<lparr>grid := Some (map row_triple (filter row_accepted (drop 1 ?tab)))\<rparr>,
           map (\<lambda>cells. Print parse_error_msg) (filter row_malformed (drop 1 ?tab)))"
    by (rule get_data_table_rows [of ?self ?r "\<lambda>text. [?tab]" ?tab "[]", THEN conjunct1,
          OF _ response_ok_200])
      simp_all
  then show ?thesis
    by (simp only: rows mal) simp
qed

text \<open>
  C6, as the code has it. Every triple that \<open>get_data\<close> stores comes from a data row
  with at least three cells whose trimmed first and third cells read as integers,
  and carries those two integers; a row where one of them does not read as an
  integer contributes no triple. The sign of the integers is not looked at.
\<close>

theorem get_data_triples_are_integer_rows:
  assumes "response self = Some r" and "response_ok r"
    and "soup (resp_text r) = table # others"
  shows "\<exists>ts. grid (fst (get_data soup self)) = Some ts
           \<and> ts = map row_triple (filter row_accepted (drop 1 table))
           \<and> (\<forall>t \<in> set ts. \<exists>cells \<in> set (drop 1 table).
                 length cells \<ge> 3 \<and> py_int (strip (cells ! 0)) = Some (fst t)
                 \<and> py_int (strip (cells ! 2)) = Some (fst (snd t))
                 \<and> snd (snd t) = strip (cells ! 1))
           \<and> (\<forall>cells. py_int (strip (cells ! 0)) = None \<or> py_int (strip (cells ! 2)) = None
                 \<longrightarrow> \<not> row_accepted cells)"
proof -
  have g: "grid (fst (get_data soup self))
             = Some (map row_triple (filter row_accepted (drop 1 table)))"
    using get_data_parses [of self r soup table others] assms by simp
  have "\<exists>cells \<in> set (drop 1 table).
           length cells \<ge> 3 \<and> py_int (strip (cells ! 0)) = Some (fst t)
           \<and> py_int (strip (cells ! 2)) = Some (fst (snd t))
           \<and> snd (snd t) = strip (cells ! 1)"
    if "t \<in> set (map row_triple (filter row_accepted (drop 1 table)))" for t
  proof -
    from that obtain cells where c: "cells \<in> set (drop 1 table)" "row_accepted cells"
      "t = row_triple cells" by auto
    then show ?thesis
      by (intro bexI [of _ cells]) (auto simp: row_accepted_def row_triple_def)
  qed
  with g show ?thesis
    by (auto simp: row_accepted_def)
qed

theorem get_data_triples_are_integer_rows_witness:
  "grid (fst (get_data
     (\<lambda>text. [[[''x-coordinate'', ''Character'', ''y-coordinate''],
               [''3'', ''A'', ''4''], [''x'', ''B'', ''0'']]])
     \<lparr>url = ''https://docs.google.com/d'',
      response = Some \<lparr>status_code = 200, reason = ''OK'',
                        resp_url = ''https://docs.google.com/d'', resp_text = ''<table>''\<rparr>,
      grid = None\<rparr>)) = Some [(3, 4, ''A'')]"
proof -
  let ?tab = "[[''x-coordinate'', ''Character'', ''y-coordinate''],
               [''3'', ''A'', ''4''], [''x'', ''B'', ''0'']]"
  let ?r = "\<lparr>status_code = 200, reason = ''OK'',
             resp_url = ''https://docs.google.com/d'', resp_text = ''<table>''\<rparr>"
  let ?self = "\<lparr>url = ''https://docs.google.com/d'', response = Some ?r, grid = None\<rparr>"
  have rows: "map row_triple (filter row_accepted (drop 1 ?tab)) = [(3, 4, ''A'')]"
    by code_simp
  have "\<exists>ts. grid (fst (get_data (\<lambda>text. [?tab]) ?self)) = Some ts
           \<and> ts = map row_triple (filter row_accepted (drop 1 ?tab))"
    using get_data_triples_are_integer_rows [of ?self ?r "\<lambda>text. [?tab]" ?tab "[]",
          OF _ response_ok_200]
    by (elim meta_impE exE conjE; (intro exI conjI)?; (assumption | simp))
  then show ?thesis
    by (simp only: rows) simp
qed

text \<open>
  C6, as the claim states it, fails: a row whose first cell is \<open>-1\<close> is accepted,
  and the triple list then holds a negative x-coordinate.
\<close>

theorem get_data_negative_coordinate_counterexample:
  "grid (fst (get_data
     (\<lambda>text. [[[''x-coordinate'', ''Character'', ''y-coordinate''], [''-1'', ''A'', ''0'']]])
     \<lparr>url = ''https://docs.google.com/d'',
      response = Some \<lparr>status_code = 200, reason = ''OK'',
                        resp_url = ''https://docs.google.com/d'', resp_text = ''<table>''\<rparr>,
      grid = None\<rparr>)) = Some [(- 1, 0, ''A'')]"
proof -
  let ?tab = "[[''x-coordinate'', ''Character'', ''y-coordinate''], [''-1'', ''A'', ''0'']]"
  let ?r = "\<lparr>status_code = 200, reason = ''OK'',
             resp_url = ''https://docs.google.com/d'', resp_text = ''<table>''\<rparr>"
  let ?self = "\<lparr>url = ''https://docs.google.com/d'', response = Some ?r, grid = None\<rparr>"
  have rows: "map row_triple (filter row_accepted (drop 1 ?tab)) = [(- 1, 0, ''A'')]"
    by code_simp
  have "get_data (\<lambda>text. [?tab]) ?self =
          (?self\<lparr>grid := Some (map row_triple (filter row_accepted (drop 1 ?tab)))\<rparr>,
           map (\<lambda>cells. Print parse_error_msg) (filter row_malformed (drop 1 ?tab)))"
    by (rule get_data_parses [of ?self ?r "\<lambda>text. [?tab]" ?tab "[]", OF _ response_ok_200])
      simp_all
  then show ?thesis
    by (simp only: rows) simp
qed

section \<open>Failures of the fetch and of the table search\<close>

lemma init_accepts:
  "url_setter (PyStr u) = Inr u \<Longrightarrow> init (PyStr u) = Inr \<lparr>url = u, response = None, grid = None\<rparr>"
  by (simp add: init_def)

lemma get_data_no_table:
  assumes "response self = Some r" and "response_ok r" and "soup (resp_text r) = []"
  shows "get_data soup self = (self, [Print ''No table found in the document.''])"
  using assms by (simp add: get_data_def find_table_def)

text \<open>
  C8. When the fetched markup has no table, \<open>get_data\<close> prints "No table found in
  the document." and stores nothing, so the grid is still unset; \<open>display_grid\<close>
  finds it unset, asks \<open>get_data\<close> once more (the same message again), prints "No
  data to display." and returns. \<open>Main\<close> ends without an exception, and these three
  lines are all it prints after the request: no row of a grid.
\<close>

theorem no_table_is_no_data:
  assumes "url_setter (PyStr u) = Inr u" and "get u = Inr r" and "response_ok r"
    and "soup (resp_text r) = []"
  shows "get_data soup \<lparr>url = u, response = Some r, grid = None\<rparr>
           = (\<lparr>url = u, response = Some r, grid = None\<rparr>,
              [Print ''No table found in the document.''])
         \<and> Main get soup (PyStr u)
           = (None, [HttpGet u, Print ''No table found in the document.'',
                     Print ''No table found in the document.'', Print ''No data to display.''])"
proof -
  let ?d = "\<lparr>url = u, response = Some r, grid = None\<rparr>"
  have gd: "get_data soup ?d = (?d, [Print ''No table found in the document.''])"
    using assms by (simp add: get_data_no_table)
  have v: "verify_public_url get \<lparr>url = u, response = None, grid = None\<rparr>
             = ((?d, True), [HttpGet u])"
    using assms by (simp add: verify_public_url_def response_ok_def)
  have dg: "display_grid soup ?d
              = (Inr ?d, [Print ''No table found in the document.'', Print ''No data to display.''])"
    by (simp add: display_grid_def gd)
  have "try_block get soup \<lparr>url = u, response = None, grid = None\<rparr>
          = (None, [HttpGet u, Print ''No table found in the document.'',
                    Print ''No table found in the document.'', Print ''No data to display.''])"
    by (simp add: try_block_def v gd dg)
  then show ?thesis
    using assms(1) gd by (simp add: Main_def init_accepts)
qed

theorem no_table_is_no_data_witness:
  "Main (\<lambda>u. Inr \<lparr>status_code = 200, reason = ''OK'',
                   resp_url = ''https://docs.google.com/d'', resp_text = ''<table>''\<rparr>)
        (\<lambda>text. []) (PyStr ''https://docs.google.com/d'')
     = (None, [HttpGet ''https://docs.google.com/d'', Print ''No table found in the document.'',
               Print ''No table found in the document.'', Print ''No data to display.''])"
  by (rule no_table_is_no_data [THEN conjunct2, OF url_setter_docs _ response_ok_200]) simp_all

lemma raise_for_status_error:
  "400 \<le> status_code r \<Longrightarrow> status_code r < 600 \<Longrightarrow> \<exists>m. raise_for_status r = Some m"
  by (simp add: raise_for_status_def)

text \<open>
  The failures that the fetcher does catch. When the GET raises, or answers with a
  status from 400 to 599, \<open>verify_public_url\<close> prints "Error accessing the URL: ..."
  and returns False; \<open>Main\<close> then prints its two lines about the failed access and
  ends. The request and these three lines are everything that happens: the parser
  and the renderer are not run.
\<close>

lemma fetch_failure_aborts:
  assumes "url_setter (PyStr u) = Inr u"
    and "(\<exists>m. get u = Inl m) \<or> (\<exists>r. get u = Inr r \<and> 400 \<le> status_code r \<and> status_code r < 600)"
  shows "\<exists>m. snd (fst (verify_public_url get \<lparr>url = u, response = None, grid = None\<rparr>)) = False
           \<and> Main get soup (PyStr u)
               = (None, [HttpGet u, Print (''Error accessing the URL: '' @ m),
                         Print (''Error: '' @ access_failed_msg), Print private_url_hint])"
proof -
  let ?d = "\<lparr>url = u, response = None, grid = None\<rparr>"
  from assms(2) obtain m d' where v:
    "verify_public_url get ?d = ((d', False), [HttpGet u, Print (''Error accessing the URL: '' @ m)])"
  proof
    assume "\<exists>m. get u = Inl m"
    then obtain m where "get u = Inl m" ..
    then have "verify_public_url get ?d
                 = ((?d, False), [HttpGet u, Print (''Error accessing the URL: '' @ m)])"
      by (simp add: verify_public_url_def)
    then show ?thesis by (rule that)
  next
    assume "\<exists>r. get u = Inr r \<and> 400 \<le> status_code r \<and> status_code r < 600"
    then obtain r where r: "get u = Inr r" "400 \<le> status_code r" "status_code r < 600"
      by blast
    then obtain m where "raise_for_status r = Some m"
      using raise_for_status_error by blast
    with r(1) have "verify_public_url get ?d
        = ((?d\<lparr>response := Some r\<rparr>, False), [HttpGet u, Print (''Error accessing the URL: '' @ m)])"
      by (simp add: verify_public_url_def)
    then show ?thesis by (rule that)
  qed
  then have "try_block get soup ?d
               = (Some (ValueError access_failed_msg),
                  [HttpGet u, Print (''Error accessing the URL: '' @ m)])"
    by (simp add: try_block_def)
  then have "Main get soup (PyStr u)
               = (None, [HttpGet u, Print (''Error accessing the URL: '' @ m),
                         Print (''Error: '' @ access_failed_msg), Print private_url_hint])"
    using assms(1) by (simp add: Main_def init_accepts)
  with v show ?thesis by auto
qed

lemma fetch_failure_aborts_404:
  "\<exists>m. Main (\<lambda>u. Inr \<lparr>status_code = 404, reason = ''Not Found'',
                        resp_url = ''https://docs.google.com/d'', resp_text = ''<table>''\<rparr>)
             (\<lambda>text. [[[''x-coordinate'', ''Character'', ''y-coordinate''], [''0'', ''A'', ''0'']]])
             (PyStr ''https://docs.google.com/d'')
         = (None, [HttpGet ''https://docs.google.com/d'', Print (''Error accessing the URL: '' @ m),
                   Print (''Error: '' @ access_failed_msg), Print private_url_hint])"
  using fetch_failure_aborts [of "''https://docs.google.com/d''"
      "\<lambda>u. Inr \<lparr>status_code = 404, reason = ''Not Found'',
                resp_url = ''https://docs.google.com/d'', resp_text = ''<table>''\<rparr>"
      "\<lambda>text. [[[''x-coordinate'', ''Character'', ''y-coordinate''], [''0'', ''A'', ''0'']]]",
      OF url_setter_docs]
  by auto

text \<open>
  Every other status passes the fetcher, the statuses 100 to 199 and 300 to 399
  among them: \<open>raise_for_status\<close> does not raise, and \<open>verify_public_url\<close> stores the
  response and returns True without a message.
\<close>

lemma verify_public_url_accepts:
  assumes "get (url self) = Inr r" and "\<not> (400 \<le> status_code r \<and> status_code r < 600)"
  shows "verify_public_url get self = ((self\<lparr>response := Some r\<rparr>, True), [HttpGet (url self)])"
proof -
  have "raise_for_status r = None"
    using assms(2) by (auto simp: raise_for_status_def)
  then show ?thesis
    using assms(1) by (simp add: verify_public_url_def)
qed

text \<open>
  C9 on the code: a GET that returns a status which is not a success and which
  the HTTP client does not count as an error is not a failure for the fetcher.
  With status 300 \<open>verify_public_url\<close> returns True and prints no message, the
  pipeline goes on, the body is parsed and a grid is printed, where the claim has
  the fetcher fail and no grid printed.
\<close>

theorem fetch_status_300_accepted:
  "verify_public_url
     (\<lambda>u. Inr \<lparr>status_code = 300, reason = ''Multiple Choices'',
                resp_url = ''https://docs.google.com/d'', resp_text = ''<table>''\<rparr>)
     \<lparr>url = ''https://docs.google.com/d'', response = None, grid = None\<rparr>
     = ((\<lparr>url = ''https://docs.google.com/d'',
          response = Some \<lparr>status_code = 300, reason = ''Multiple Choices'',
                            resp_url = ''https://docs.google.com/d'', resp_text = ''<table>''\<rparr>,
          grid = None\<rparr>, True),
        [HttpGet ''https://docs.google.com/d''])
   \<and> Main (\<lambda>u. Inr \<lparr>status_code = 300, reason = ''Multiple Choices'',
                     resp_url = ''https://docs.google.com/d'', resp_text = ''<table>''\<rparr>)
          (\<lambda>text. [[[''x-coordinate'', ''Character'', ''y-coordinate''], [''0'', ''A'', ''0'']]])
          (PyStr ''https://docs.google.com/d'')
     = (None, [HttpGet ''https://docs.google.com/d'', Print ''A''])"
proof
  show "verify_public_url
     (\<lambda>u. Inr \<lparr>status_code = 300, reason = ''Multiple Choices'',
                resp_url = ''https://docs.google.com/d'', resp_text = ''<table>''\<rparr>)
     \<lparr>url = ''https://docs.google.com/d'', response = None, grid = None\<rparr>
     = ((\<lparr>url = ''https://docs.google.com/d'',
          response = Some \<lparr>status_code = 300, reason = ''Multiple Choices'',
                            resp_url = ''https://docs.google.com/d'', resp_text = ''<table>''\<rparr>,
          grid = None\<rparr>, True),
        [HttpGet ''https://docs.google.com/d''])"
    by (simp add: verify_public_url_accepts)
next
  show "Main (\<lambda>u. Inr \<lparr>status_code = 300, reason = ''Multiple Choices'',
                     resp_url = ''https://docs.google.com/d'', resp_text = ''<table>''\<rparr>)
          (\<lambda>text. [[[''x-coordinate'', ''Character'', ''y-coordinate''], [''0'', ''A'', ''0'']]])
          (PyStr ''https://docs.google.com/d'')
     = (None, [HttpGet ''https://docs.google.com/d'', Print ''A''])"
    by code_simp
qed

section \<open>The renderer\<close>

lemma foldl_max_ge: "(x::int) \<le> foldl max x xs \<and> (\<forall>y \<in> set xs. y \<le> foldl max x xs)"
proof (induction xs arbitrary: x)
  case Nil
  show ?case by simp
next
  case (Cons a xs)
  have "max x a \<le> foldl max (max x a) xs" and "\<forall>y \<in> set xs. y \<le> foldl max (max x a) xs"
    using Cons.IH [of "max x a"] by simp_all
  then show ?case by auto
qed

lemma foldl_max_mem: "foldl max (x::int) xs \<in> set (x # xs)"
proof (induction xs arbitrary: x)
  case Nil
  show ?case by simp
next
  case (Cons a xs)
  have "foldl max (max x a) xs \<in> set (max x a # xs)" by (rule Cons.IH)
  moreover have "max x a = x \<or> max x a = a" by (simp add: max_def)
  ultimately show ?case by auto
qed

lemma series_max_nonempty:
  assumes "xs \<noteq> []"
  shows "\<exists>m. series_max xs = Some m \<and> m \<in> set xs \<and> (\<forall>x \<in> set xs. x \<le> m)"
proof (cases xs)
  case Nil
  with assms show ?thesis by simp
next
  case (Cons a as)
  then show ?thesis
    using foldl_max_ge [of a as] foldl_max_mem [of a as] by (auto simp: series_max_def)
qed

lemma py_index_in_range: "0 \<le> i \<Longrightarrow> nat i < n \<Longrightarrow> py_index n i = Some (nat i)"
  by (simp add: py_index_def)

lemma set_cell_in_range:
  assumes "0 \<le> y" and "nat y < length g" and "0 \<le> x" and "nat x < length (g ! nat y)"
  shows "set_cell g y x c = Inr (g[nat y := (g ! nat y)[nat x := c]])"
  using assms by (simp add: set_cell_def py_index_in_range)

lemma fill_grid_cells:
  assumes "length g = h" and "\<forall>r \<in> set g. length r = w"
    and "\<forall>t \<in> set ts. 0 \<le> fst t \<and> nat (fst t) < w \<and> 0 \<le> fst (snd t) \<and> nat (fst (snd t)) < h"
  shows "\<exists>g'. fill_grid g ts = Inr g' \<and> length g' = h \<and> (\<forall>r \<in> set g'. length r = w) \<and>
           (\<forall>j < h. \<forall>i < w. g' ! j ! i =
              (case last_at ts (int i) (int j) of None \<Rightarrow> g ! j ! i | Some c \<Rightarrow> c))"
  using assms
proof (induction ts arbitrary: g)
  case Nil
  then show ?case by simp
next
  case (Cons t ts)
  obtain x y c where t: "t = (x, y, c)" by (cases t) auto
  from Cons.prems(3) t have rng: "0 \<le> x" "nat x < w" "0 \<le> y" "nat y < h"
    by simp_all
  let ?g1 = "g[nat y := (g ! nat y)[nat x := c]]"
  have rowlen: "length (g ! nat y) = w"
    using Cons.prems(1,2) rng by simp
  have step: "set_cell g y x c = Inr ?g1"
    using rng Cons.prems(1) rowlen by (simp add: set_cell_in_range)
  have len1: "length ?g1 = h" using Cons.prems(1) by simp
  have rows1: "\<forall>r \<in> set ?g1. length r = w"
  proof
    fix r assume "r \<in> set ?g1"
    then have "r \<in> insert ((g ! nat y)[nat x := c]) (set g)"
      using set_update_subset_insert by fastforce
    then show "length r = w" using Cons.prems(2) rowlen by auto
  qed
  have rest: "\<forall>t \<in> set ts. 0 \<le> fst t \<and> nat (fst t) < w \<and> 0 \<le> fst (snd t) \<and> nat (fst (snd t)) < h"
    using Cons.prems(3) by simp
  from Cons.IH [OF len1 rows1 rest] obtain g' where g':
    "fill_grid ?g1 ts = Inr g'" "length g' = h" "\<forall>r \<in> set g'. length r = w"
    "\<forall>j < h. \<forall>i < w. g' ! j ! i =
        (case last_at ts (int i) (int j) of None \<Rightarrow> ?g1 ! j ! i | Some c \<Rightarrow> c)"
    by blast
  have cell1: "?g1 ! j ! i = (if x = int i \<and> y = int j then c else g ! j ! i)"
    if "j < h" "i < w" for i j
  proof (cases "j = nat y")
    case True
    then show ?thesis
      using that rng Cons.prems(1) rowlen by (auto simp: nth_list_update)
  next
    case False
    then show ?thesis
      using that rng Cons.prems(1) by (auto simp: nth_list_update)
  qed
  have "g' ! j ! i = (case last_at (t # ts) (int i) (int j) of None \<Rightarrow> g ! j ! i | Some c \<Rightarrow> c)"
    if "j < h" "i < w" for i j
  proof -
    have a: "g' ! j ! i =
        (case last_at ts (int i) (int j) of None \<Rightarrow> ?g1 ! j ! i | Some c \<Rightarrow> c)"
      using g'(4) that by blast
    show ?thesis
      unfolding a cell1 [OF that] t by (cases "last_at ts (int i) (int j)") auto
  qed
  moreover have "fill_grid g (t # ts) = Inr g'"
    using step g'(1) by (simp add: t)
  ultimately show ?case using g'(2,3) by blast
qed

lemma last_at_None: "last_at ts i j = None \<longleftrightarrow> (\<forall>c. (i, j, c) \<notin> set ts)"
  by (induction ts i j rule: last_at.induct) (auto split: option.splits)

lemma last_at_append:
  "last_at (pre @ post) i j =
     (case last_at post i j of Some c \<Rightarrow> Some c | None \<Rightarrow> last_at pre i j)"
  by (induction pre i j rule: last_at.induct) (auto split: option.splits)

lemma last_at_last:
  assumes "\<forall>c'. (x, y, c') \<notin> set post"
  shows "last_at (pre @ (x, y, c) # post) x y = Some c"
proof -
  have "last_at post x y = None" using assms by (simp add: last_at_None)
  then have "last_at ((x, y, c) # post) x y = Some c" by simp
  then show ?thesis by (simp add: last_at_append)
qed

lemma build_grid_cells:
  assumes "ts \<noteq> []" and "nonneg_coords ts"
  shows "\<exists>max_x max_y g.
           series_max (map fst ts) = Some max_x \<and> max_x \<in> set (map fst ts)
           \<and> (\<forall>t \<in> set ts. fst t \<le> max_x)
           \<and> series_max (map (\<lambda>t. fst (snd t)) ts) = Some max_y
           \<and> max_y \<in> set (map (\<lambda>t. fst (snd t)) ts) \<and> (\<forall>t \<in> set ts. fst (snd t) \<le> max_y)
           \<and> 0 \<le> max_x \<and> 0 \<le> max_y
           \<and> build_grid ts = Inr g \<and> length g = nat (max_y + 1)
           \<and> (\<forall>r \<in> set g. length r = nat (max_x + 1))
           \<and> (\<forall>j < nat (max_y + 1). \<forall>i < nat (max_x + 1). g ! j ! i =
                 (case last_at ts (int i) (int j) of None \<Rightarrow> '' '' | Some c \<Rightarrow> c))"
proof -
  from assms(1) obtain mx where mx: "series_max (map fst ts) = Some mx"
    "mx \<in> set (map fst ts)" "\<forall>x \<in> set (map fst ts). x \<le> mx"
    using series_max_nonempty [of "map fst ts"] by auto
  from assms(1) obtain my where my: "series_max (map (\<lambda>t. fst (snd t)) ts) = Some my"
    "my \<in> set (map (\<lambda>t. fst (snd t)) ts)" "\<forall>y \<in> set (map (\<lambda>t. fst (snd t)) ts). y \<le> my"
    using series_max_nonempty [of "map (\<lambda>t. fst (snd t)) ts"] by auto
  have nn: "\<forall>t \<in> set ts. 0 \<le> fst t \<and> 0 \<le> fst (snd t)"
    using assms(2) by (simp add: nonneg_coords_def list_all_iff)
  have pos: "0 \<le> mx" "0 \<le> my"
    using mx(2) my(2) nn by auto
  have len0: "length (empty_grid mx my) = nat (my + 1)"
    by (simp add: empty_grid_def)
  have rows0: "\<forall>r \<in> set (empty_grid mx my). length r = nat (mx + 1)"
    by (auto simp: empty_grid_def)
  have rng: "\<forall>t \<in> set ts. 0 \<le> fst t \<and> nat (fst t) < nat (mx + 1)
               \<and> 0 \<le> fst (snd t) \<and> nat (fst (snd t)) < nat (my + 1)"
    using nn mx(3) my(3) by fastforce
  from fill_grid_cells [OF len0 rows0 rng] obtain g where g:
    "fill_grid (empty_grid mx my) ts = Inr g" "length g = nat (my + 1)"
    "\<forall>r \<in> set g. length r = nat (mx + 1)"
    "\<forall>j < nat (my + 1). \<forall>i < nat (mx + 1). g ! j ! i =
        (case last_at ts (int i) (int j) of None \<Rightarrow> empty_grid mx my ! j ! i | Some c \<Rightarrow> c)"
    by blast
  have e: "empty_grid mx my ! j ! i = '' ''" if "j < nat (my + 1)" "i < nat (mx + 1)" for i j
    using that by (simp add: empty_grid_def)
  have cells: "\<forall>j < nat (my + 1). \<forall>i < nat (mx + 1). g ! j ! i =
        (case last_at ts (int i) (int j) of None \<Rightarrow> '' '' | Some c \<Rightarrow> c)"
  proof (intro allI impI)
    fix j i assume ji: "j < nat (my + 1)" "i < nat (mx + 1)"
    have "g ! j ! i =
        (case last_at ts (int i) (int j) of None \<Rightarrow> empty_grid mx my ! j ! i | Some c \<Rightarrow> c)"
      using g(4) ji by blast
    then show "g ! j ! i = (case last_at ts (int i) (int j) of None \<Rightarrow> '' '' | Some c \<Rightarrow> c)"
      by (simp add: e [OF ji] split: option.splits)
  qed
  have bg: "build_grid ts = Inr g"
    using mx(1) my(1) g(1) by (simp add: build_grid_def)
  show ?thesis
    using mx my pos bg g(2,3) cells by auto
qed

lemma nonneg_coords_set:
  "nonneg_coords ts \<longleftrightarrow> (\<forall>t \<in> set ts. 0 \<le> fst t \<and> 0 \<le> fst (snd t))"
  by (simp add: nonneg_coords_def list_all_iff)

lemma empty_grid_blank:
  "length (empty_grid max_x max_y) = nat (max_y + 1) \<and>
   (\<forall>row \<in> set (empty_grid max_x max_y).
      length row = nat (max_x + 1) \<and> (\<forall>cell \<in> set row. cell = '' ''))"
  by (auto simp: empty_grid_def)

lemma display_grid_of_grid:
  assumes "grid self = Some ts" and "build_grid ts = Inr g"
  shows "display_grid soup self = (Inr self, print_rows g)"
  using assms by (simp add: display_grid_def)

lemma build_grid_example:
  "build_grid [(0, 0, ''A''), (1, 0, ''B''), (0, 1, ''C'')] = Inr [[''A'', ''B''], [''C'', '' '']]"
  by code_simp

lemma print_rows_example:
  "print_rows [[''A'', ''B''], [''C'', '' '']] = [Print ''C '', Print ''AB'']"
  by code_simp

text \<open>
  C3. For a triple list that is not empty (its coordinates are not negative: the
  data model's triple list), \<open>max_x\<close> and \<open>max_y\<close> are the largest x and the largest y that
  occur; no minimum is read, the grid starts at 0. The grid that is allocated has
  \<open>max_y + 1\<close> rows of \<open>max_x + 1\<close> cells, each a space; filling it succeeds and
  keeps that shape, and a cell whose coordinate no triple names is still a space
  when the filling is done.
\<close>

theorem build_grid_bounds_and_blanks:
  assumes "ts \<noteq> []" and "nonneg_coords ts"
  shows "\<exists>max_x max_y g.
           series_max (map fst ts) = Some max_x \<and> max_x \<in> set (map fst ts)
           \<and> (\<forall>t \<in> set ts. fst t \<le> max_x)
           \<and> series_max (map (\<lambda>t. fst (snd t)) ts) = Some max_y
           \<and> max_y \<in> set (map (\<lambda>t. fst (snd t)) ts) \<and> (\<forall>t \<in> set ts. fst (snd t) \<le> max_y)
           \<and> length (empty_grid max_x max_y) = nat (max_y + 1)
           \<and> (\<forall>row \<in> set (empty_grid max_x max_y).
                 length row = nat (max_x + 1) \<and> (\<forall>cell \<in> set row. cell = '' ''))
           \<and> build_grid ts = fill_grid (empty_grid max_x max_y) ts
           \<and> build_grid ts = Inr g \<and> length g = nat (max_y + 1)
           \<and> (\<forall>row \<in> set g. length row = nat (max_x + 1))
           \<and> (\<forall>x y. 0 \<le> x \<and> x \<le> max_x \<and> 0 \<le> y \<and> y \<le> max_y \<and> (\<forall>c. (x, y, c) \<notin> set ts)
                 \<longrightarrow> g ! nat y ! nat x = '' '')"
proof -
  from build_grid_cells [OF assms] obtain mx my g where b:
    "series_max (map fst ts) = Some mx" "mx \<in> set (map fst ts)" "\<forall>t \<in> set ts. fst t \<le> mx"
    "series_max (map (\<lambda>t. fst (snd t)) ts) = Some my"
    "my \<in> set (map (\<lambda>t. fst (snd t)) ts)" "\<forall>t \<in> set ts. fst (snd t) \<le> my"
    "0 \<le> mx" "0 \<le> my" "build_grid ts = Inr g" "length g = nat (my + 1)"
    "\<forall>r \<in> set g. length r = nat (mx + 1)"
    "\<forall>j < nat (my + 1). \<forall>i < nat (mx + 1). g ! j ! i =
        (case last_at ts (int i) (int j) of None \<Rightarrow> '' '' | Some c \<Rightarrow> c)"
    by blast
  have fill: "build_grid ts = fill_grid (empty_grid mx my) ts"
    using b(1,4) by (simp add: build_grid_def)
  have blank: "g ! nat y ! nat x = '' ''"
    if "0 \<le> x \<and> x \<le> mx \<and> 0 \<le> y \<and> y \<le> my \<and> (\<forall>c. (x, y, c) \<notin> set ts)" for x y
  proof -
    have "last_at ts x y = None" using that by (simp add: last_at_None)
    moreover have "nat y < nat (my + 1)" "nat x < nat (mx + 1)" using that by auto
    ultimately show ?thesis using b(12) that by simp
  qed
  have eg: "length (empty_grid mx my) = nat (my + 1)"
    and eg2: "\<forall>row \<in> set (empty_grid mx my).
                length row = nat (mx + 1) \<and> (\<forall>cell \<in> set row. cell = '' '')"
    using empty_grid_blank [of mx my] by simp_all
  have bl: "\<forall>x y. 0 \<le> x \<and> x \<le> mx \<and> 0 \<le> y \<and> y \<le> my \<and> (\<forall>c. (x, y, c) \<notin> set ts)
              \<longrightarrow> g ! nat y ! nat x = '' ''"
    using blank by blast
  show ?thesis
    apply (rule exI [of _ mx], rule exI [of _ my], rule exI [of _ g])
    by (intro conjI b(1) b(2) b(3) b(4) b(5) b(6) eg eg2 fill b(9) b(10) b(11) bl)
qed

theorem build_grid_bounds_and_blanks_witness:
  "\<exists>g. build_grid [(0, 0, ''A''), (2, 1, ''B'')] = Inr g \<and> length g = 2
       \<and> (\<forall>row \<in> set g. length row = 3) \<and> g ! 0 ! 1 = '' '' \<and> g ! 1 ! 0 = '' ''"
proof -
  let ?ts = "[(0, 0, ''A''), (2, 1, ''B'')] :: triple list"
  have ne: "?ts \<noteq> []" by simp
  have nn: "nonneg_coords ?ts" by (simp add: nonneg_coords_def)
  from build_grid_bounds_and_blanks [OF ne nn] obtain mx my g where all:
    "series_max (map fst ?ts) = Some mx \<and> mx \<in> set (map fst ?ts)
     \<and> (\<forall>t \<in> set ?ts. fst t \<le> mx)
     \<and> series_max (map (\<lambda>t. fst (snd t)) ?ts) = Some my
     \<and> my \<in> set (map (\<lambda>t. fst (snd t)) ?ts) \<and> (\<forall>t \<in> set ?ts. fst (snd t) \<le> my)
     \<and> length (empty_grid mx my) = nat (my + 1)
     \<and> (\<forall>row \<in> set (empty_grid mx my).
           length row = nat (mx + 1) \<and> (\<forall>cell \<in> set row. cell = '' ''))
     \<and> build_grid ?ts = fill_grid (empty_grid mx my) ?ts
     \<and> build_grid ?ts = Inr g \<and> length g = nat (my + 1)
     \<and> (\<forall>row \<in> set g. length row = nat (mx + 1))
     \<and> (\<forall>x y. 0 \<le> x \<and> x \<le> mx \<and> 0 \<le> y \<and> y \<le> my \<and> (\<forall>c. (x, y, c) \<notin> set ?ts)
           \<longrightarrow> g ! nat y ! nat x = '' '')"
    by (elim exE) (rule that)
  note r3 = all [THEN conjunct2, THEN conjunct2, THEN conjunct2]
  note r9 = r3 [THEN conjunct2, THEN conjunct2, THEN conjunct2, THEN conjunct2,
                THEN conjunct2, THEN conjunct2]
  note b = all [THEN conjunct1] r3 [THEN conjunct1] r9 [THEN conjunct1]
    r9 [THEN conjunct2, THEN conjunct1] r9 [THEN conjunct2, THEN conjunct2, THEN conjunct1]
    r9 [THEN conjunct2, THEN conjunct2, THEN conjunct2]
  have mx: "mx = 2" using b(1) by (simp add: series_max_def)
  have my: "my = 1" using b(2) by (simp add: series_max_def)
  have c01: "g ! nat 0 ! nat 1 = '' ''"
    by (rule b(6) [rule_format]) (simp add: mx my)
  have c10: "g ! nat 1 ! nat 0 = '' ''"
    by (rule b(6) [rule_format]) (simp add: mx my)
  have len: "length g = 2" using b(4) my by simp
  have rows: "\<forall>row \<in> set g. length row = 3" using b(5) mx by simp
  show ?thesis using b(3) len rows c01 c10 by simp
qed

text \<open>
  C4. For a triple list that is not empty (its coordinates are not negative: the
  data model's triple list), \<open>display_grid\<close>
  prints \<open>max_y + 1\<close> lines and nothing else: the line at position k from the top is
  row \<open>max_y - k\<close> of the grid, so the rows come in descending y and row 0 is the
  last line; each line is the concatenation of the cells of its row for x from 0
  to \<open>max_x\<close>. The triples (0,0,A), (1,0,B), (0,1,C) give the lines "C " and "AB".
\<close>

theorem display_grid_prints_rows_descending:
  "(ts \<noteq> [] \<and> nonneg_coords ts \<and> grid self = Some ts \<longrightarrow>
      (\<exists>max_x max_y g.
          series_max (map fst ts) = Some max_x
          \<and> series_max (map (\<lambda>t. fst (snd t)) ts) = Some max_y
          \<and> build_grid ts = Inr g
          \<and> display_grid soup self =
              (Inr self,
               map (\<lambda>y. Print (concat (map (\<lambda>x. g ! y ! x) [0..<nat (max_x + 1)])))
                 (rev [0..<nat (max_y + 1)]))
          \<and> length (snd (display_grid soup self)) = nat (max_y + 1)
          \<and> (\<forall>k < nat (max_y + 1).
                 snd (display_grid soup self) ! k = Print (concat (g ! (nat max_y - k))))
          \<and> last (snd (display_grid soup self)) = Print (concat (g ! 0))))
   \<and> display_grid soup' \<lparr>url = u, response = r, grid = Some [(0, 0, ''A''), (1, 0, ''B''), (0, 1, ''C'')]\<rparr>
       = (Inr \<lparr>url = u, response = r, grid = Some [(0, 0, ''A''), (1, 0, ''B''), (0, 1, ''C'')]\<rparr>,
          [Print ''C '', Print ''AB''])"
proof (intro conjI impI)
  assume a: "ts \<noteq> [] \<and> nonneg_coords ts \<and> grid self = Some ts"
  then have "ts \<noteq> []" "nonneg_coords ts" by simp_all
  from build_grid_cells [OF this] obtain mx my g where b:
    "series_max (map fst ts) = Some mx" "series_max (map (\<lambda>t. fst (snd t)) ts) = Some my"
    "0 \<le> mx" "0 \<le> my" "build_grid ts = Inr g" "length g = nat (my + 1)"
    "\<forall>r \<in> set g. length r = nat (mx + 1)"
    by blast
  let ?n = "nat (my + 1)"
  have d: "display_grid soup self = (Inr self, print_rows g)"
    using a b(5) by (simp add: display_grid_of_grid)
  have row: "g ! y = map (\<lambda>x. g ! y ! x) [0..<nat (mx + 1)]" if "y < ?n" for y
  proof -
    have "length (g ! y) = nat (mx + 1)" using that b(6,7) by simp
    then show ?thesis by (metis map_nth)
  qed
  have pr: "print_rows g =
      map (\<lambda>y. Print (concat (map (\<lambda>x. g ! y ! x) [0..<nat (mx + 1)]))) (rev [0..<?n])"
    unfolding print_rows_def b(6)
    by (rule map_cong) (use row in auto)
  have len: "length (print_rows g) = ?n"
    by (simp add: print_rows_def b(6))
  have kth: "print_rows g ! k = Print (concat (g ! (nat my - k)))" if "k < ?n" for k
  proof -
    have "rev [0..<?n] ! k = ?n - Suc k" using that by (simp add: rev_nth)
    moreover have "?n - Suc k = nat my - k" using b(4) by simp
    ultimately show ?thesis using that by (simp add: print_rows_def b(6))
  qed
  have "0 < ?n" using b(4) by simp
  then have lst: "last (print_rows g) = Print (concat (g ! 0))"
    by (simp add: print_rows_def b(6) last_map last_rev hd_upt)
  show "\<exists>max_x max_y g.
          series_max (map fst ts) = Some max_x
          \<and> series_max (map (\<lambda>t. fst (snd t)) ts) = Some max_y
          \<and> build_grid ts = Inr g
          \<and> display_grid soup self =
              (Inr self,
               map (\<lambda>y. Print (concat (map (\<lambda>x. g ! y ! x) [0..<nat (max_x + 1)])))
                 (rev [0..<nat (max_y + 1)]))
          \<and> length (snd (display_grid soup self)) = nat (max_y + 1)
          \<and> (\<forall>k < nat (max_y + 1).
                 snd (display_grid soup self) ! k = Print (concat (g ! (nat max_y - k))))
          \<and> last (snd (display_grid soup self)) = Print (concat (g ! 0))"
    using b(1,2,5) d pr len kth lst
    by (intro exI [of _ mx] exI [of _ my] exI [of _ g]) simp
next
  show "display_grid soup' \<lparr>url = u, response = r, grid = Some [(0, 0, ''A''), (1, 0, ''B''), (0, 1, ''C'')]\<rparr>
       = (Inr \<lparr>url = u, response = r, grid = Some [(0, 0, ''A''), (1, 0, ''B''), (0, 1, ''C'')]\<rparr>,
          [Print ''C '', Print ''AB''])"
    by (simp add: display_grid_of_grid [OF _ build_grid_example] print_rows_example)
qed

theorem display_grid_prints_rows_descending_witness:
  "snd (display_grid (\<lambda>text. [])
          \<lparr>url = ''https://docs.google.com/d'', response = None,
           grid = Some [(1, 1, ''X''), (0, 0, ''Y''), (2, 0, ''Z'')]\<rparr>)
     = [Print '' X '', Print ''Y Z'']"
proof -
  let ?ts = "[(1, 1, ''X''), (0, 0, ''Y''), (2, 0, ''Z'')] :: triple list"
  let ?self = "\<lparr>url = ''https://docs.google.com/d'', response = None, grid = Some ?ts\<rparr>"
  have h: "?ts \<noteq> [] \<and> nonneg_coords ?ts \<and> grid ?self = Some ?ts"
    by (simp add: nonneg_coords_def)
  have bg: "build_grid ?ts = Inr [[''Y'', '' '', ''Z''], ['' '', ''X'', '' '']]"
    by code_simp
  from display_grid_prints_rows_descending [of ?ts ?self "\<lambda>text. []", THEN conjunct1, rule_format, OF h]
  obtain mx my g where b:
    "series_max (map fst ?ts) = Some mx" "series_max (map (\<lambda>t. fst (snd t)) ?ts) = Some my"
    "build_grid ?ts = Inr g"
    "display_grid (\<lambda>text. []) ?self =
       (Inr ?self,
        map (\<lambda>y. Print (concat (map (\<lambda>x. g ! y ! x) [0..<nat (mx + 1)]))) (rev [0..<nat (my + 1)]))"
    by blast
  have mx: "mx = 2" using b(1) by (simp add: series_max_def)
  have my: "my = 1" using b(2) by (simp add: series_max_def)
  have g: "g = [[''Y'', '' '', ''Z''], ['' '', ''X'', '' '']]" using b(3) bg by simp
  have r2: "rev [0..<nat (1 + 1)] = [1, 0]" by code_simp
  have r3: "[0..<nat (2 + 1)] = [0, 1, 2]" by code_simp
  show ?thesis
    unfolding b(4) mx my g r2 r3 by simp
qed

text \<open>
  C5. In a triple list (its coordinates are not negative: the data model's triple
  list), the triple that is the last one
  at its coordinate decides the cell: whatever triples at the same coordinate come
  before it, the grid that is printed holds its character there.
\<close>

theorem later_triple_wins:
  assumes "nonneg_coords ts" and "ts = pre @ (x, y, c) # post"
    and "\<forall>c'. (x, y, c') \<notin> set post"
  shows "\<exists>g. build_grid ts = Inr g \<and> g ! nat y ! nat x = c
           \<and> (grid self = Some ts \<longrightarrow> display_grid soup self = (Inr self, print_rows g))"
proof -
  have ne: "ts \<noteq> []" using assms(2) by simp
  from build_grid_cells [OF ne assms(1)] obtain mx my g where b:
    "\<forall>t \<in> set ts. fst t \<le> mx" "\<forall>t \<in> set ts. fst (snd t) \<le> my"
    "build_grid ts = Inr g"
    "\<forall>j < nat (my + 1). \<forall>i < nat (mx + 1). g ! j ! i =
        (case last_at ts (int i) (int j) of None \<Rightarrow> '' '' | Some c \<Rightarrow> c)"
    by blast
  have mem: "(x, y, c) \<in> set ts" using assms(2) by simp
  then have rng: "0 \<le> x" "0 \<le> y" "x \<le> mx" "y \<le> my"
    using assms(1) b(1,2) by (auto simp: nonneg_coords_set)
  have "last_at ts x y = Some c"
    unfolding assms(2) using assms(3) by (rule last_at_last)
  moreover have "nat y < nat (my + 1)" "nat x < nat (mx + 1)" using rng by auto
  ultimately have "g ! nat y ! nat x = c" using b(4) rng by simp
  then show ?thesis
    using b(3) by (auto simp: display_grid_of_grid)
qed

theorem later_triple_wins_witness:
  "\<exists>g. build_grid [(0, 0, ''A''), (1, 0, ''B''), (0, 0, ''C'')] = Inr g \<and> g ! 0 ! 0 = ''C''"
proof -
  have nn: "nonneg_coords [(0, 0, ''A''), (1, 0, ''B''), (0, 0, ''C'')]"
    by (simp add: nonneg_coords_def)
  have sp: "[(0, 0, ''A''), (1, 0, ''B''), (0, 0, ''C'')]
              = [(0, 0, ''A''), (1, 0, ''B'')] @ (0, 0, ''C'') # ([] :: triple list)"
    by simp
  have no: "\<forall>c'. (0 :: int, 0 :: int, c') \<notin> set ([] :: triple list)" by simp
  from later_triple_wins [OF nn sp no] show ?thesis by auto
qed

text \<open>
  C1 on the code: for a triple list that is empty (a table with a header row and
  no usable data row) the column maxima are not numbers and \<open>display_grid\<close> raises
  a \<open>TypeError\<close> before it prints anything; it does not print "No data to
  display.", which it prints only when the grid was never set. \<open>Main\<close> catches the
  exception in its last handler and reports an unexpected error.
\<close>

theorem display_grid_empty_triple_list:
  "display_grid soup \<lparr>url = u, response = r, grid = Some []\<rparr>
     = (Inl (TypeError float_range_msg), [])
   \<and> Main (\<lambda>u. Inr \<lparr>status_code = 200, reason = ''OK'',
                     resp_url = ''https://docs.google.com/d'', resp_text = ''<table>''\<rparr>)
          (\<lambda>text. [[[''x-coordinate'', ''Character'', ''y-coordinate'']]])
          (PyStr ''https://docs.google.com/d'')
     = (None, [HttpGet ''https://docs.google.com/d'',
               Print ''An unexpected error occurred while processing the document.'',
               Print (''Details: '' @ float_range_msg)])"
proof
  show "display_grid soup \<lparr>url = u, response = r, grid = Some []\<rparr>
          = (Inl (TypeError float_range_msg), [])"
    by (simp add: display_grid_def build_grid_def series_max_def)
next
  show "Main (\<lambda>u. Inr \<lparr>status_code = 200, reason = ''OK'',
                     resp_url = ''https://docs.google.com/d'', resp_text = ''<table>''\<rparr>)
          (\<lambda>text. [[[''x-coordinate'', ''Character'', ''y-coordinate'']]])
          (PyStr ''https://docs.google.com/d'')
     = (None, [HttpGet ''https://docs.google.com/d'',
               Print ''An unexpected error occurred while processing the document.'',
               Print (''Details: '' @ float_range_msg)])"
    by code_simp
qed

end
